theory Spec2Isabelle
  imports Main
begin

unbundle bit_operations_syntax

section \<open>Errors\<close>

text \<open>
  The exceptions the modelled code can raise. A function that can raise returns
  \<open>py_error + 'a\<close>, with \<open>Inl\<close> for the exception.
\<close>

datatype py_error = IndexError | TypeError | ValueError | NameError

section \<open>Strings (utils/case.py)\<close>

text \<open>
  Python strings are modelled as \<open>string\<close>. The patterns of the three styles use the
  explicit ranges \<open>a-z\<close>, \<open>A-Z\<close> and \<open>0-9\<close>: every word a pattern yields is ASCII, and
  every other character is one no pattern accepts. The casing functions below are
  \<open>str.lower\<close> and \<open>str.title\<close> on ASCII strings, where only the ASCII letters are
  cased; they say nothing about other strings, and a statement about a formatter on
  given words is made for ASCII words.
\<close>

definition ascii_char :: "char \<Rightarrow> bool" where
  "ascii_char c \<longleftrightarrow> (of_char c :: nat) < 128"

definition is_ascii :: "string \<Rightarrow> bool" where
  "is_ascii w = list_all ascii_char w"

definition is_upper :: "char \<Rightarrow> bool" where
  "is_upper c \<longleftrightarrow> 65 \<le> (of_char c :: nat) \<and> (of_char c :: nat) \<le> 90"

definition is_lower :: "char \<Rightarrow> bool" where
  "is_lower c \<longleftrightarrow> 97 \<le> (of_char c :: nat) \<and> (of_char c :: nat) \<le> 122"

definition is_digit :: "char \<Rightarrow> bool" where
  "is_digit c \<longleftrightarrow> 48 \<le> (of_char c :: nat) \<and> (of_char c :: nat) \<le> 57"

definition is_cased :: "char \<Rightarrow> bool" where
  "is_cased c \<longleftrightarrow> is_upper c \<or> is_lower c"

definition to_lower :: "char \<Rightarrow> char" where
  "to_lower c = (if is_upper c then char_of ((of_char c :: nat) + 32) else c)"

definition to_upper :: "char \<Rightarrow> char" where
  "to_upper c = (if is_lower c then char_of ((of_char c :: nat) - 32) else c)"

text \<open>\<open>str.lower\<close>, on ASCII strings.\<close>

definition lower :: "string \<Rightarrow> string" where
  "lower s = map to_lower s"

text \<open>
  \<open>str.title\<close> on ASCII strings, as the interpreter computes it: one pass with the flag
  "the previous character is cased"; a character after a cased one is lowercased, any
  other character is uppercased.
\<close>

fun title_from :: "bool \<Rightarrow> string \<Rightarrow> string" where
  "title_from previous_is_cased [] = []"
| "title_from previous_is_cased (c # cs) =
     (if previous_is_cased then to_lower c else to_upper c) # title_from (is_cased c) cs"

definition title :: "string \<Rightarrow> string" where
  "title s = title_from False s"

text \<open>\<open>sep.join(words)\<close>.\<close>

fun join :: "string \<Rightarrow> string list \<Rightarrow> string" where
  "join sep [] = []"
| "join sep [w] = w"
| "join sep (w # v # ws) = w @ sep @ join sep (v # ws)"

section \<open>Word patterns\<close>

text \<open>
  A pattern is modelled by its matcher at one position of the subject: the flag says
  whether the position is the start of the string (where \<open>\A\<close> holds), the string is the
  subject from that position on. A match returns what \<open>findall\<close> reports for it (the
  whole match when the pattern has no group, the group otherwise) and the subject after
  the match.

  The character classes of the patterns:
\<close>

definition camel_head :: "bool \<Rightarrow> char \<Rightarrow> bool" where
  "camel_head at_start c \<longleftrightarrow>
     (at_start \<and> (is_lower c \<or> c = CHR ''_'')) \<or> is_upper c \<or> c = CHR ''_''"

definition camel_tail :: "char \<Rightarrow> bool" where
  "camel_tail c \<longleftrightarrow> is_lower c \<or> is_digit c \<or> c = CHR ''_''"

definition snake_char :: "char \<Rightarrow> bool" where
  "snake_char c \<longleftrightarrow> is_upper c \<or> is_lower c \<or> is_digit c"

definition kebab_char :: "char \<Rightarrow> bool" where
  "kebab_char c \<longleftrightarrow> is_upper c \<or> is_lower c \<or> is_digit c \<or> c = CHR ''_''"

text \<open>
  CamelCase: \<open>(?:\A[a-z_]|[A-Z_])[a-z0-9_]*\<close>. One head character, then the longest run
  of tail characters (nothing follows the star, so the greedy run is the match).
\<close>

definition camel_match :: "bool \<Rightarrow> string \<Rightarrow> (string \<times> string) option" where
  "camel_match at_start s =
     (case s of
        [] \<Rightarrow> None
      | c # cs \<Rightarrow>
          if camel_head at_start c
          then Some (c # takeWhile camel_tail cs, dropWhile camel_tail cs)
          else None)"

text \<open>
  The group \<open>(sep*[chars]+)\<close> of the snake and kebab patterns: the longest run of
  separators, then a non-empty longest run of word characters. Giving back a separator
  never helps: the next character would be a separator, which is no word character in
  either style.
\<close>

definition sep_group :: "char \<Rightarrow> (char \<Rightarrow> bool) \<Rightarrow> string \<Rightarrow> (string \<times> string) option" where
  "sep_group sep wordc s =
     (let seps = takeWhile (\<lambda>c. c = sep) s;
          r = dropWhile (\<lambda>c. c = sep) s;
          w = takeWhile wordc r
      in if w = [] then None else Some (seps @ w, dropWhile wordc r))"

text \<open>
  \<open>(?:\A|sep)(sep*[chars]+)\<close>: the alternative \<open>\A\<close> is tried first, then the
  alternative that consumes one separator.
\<close>

definition sep_match ::
  "char \<Rightarrow> (char \<Rightarrow> bool) \<Rightarrow> bool \<Rightarrow> string \<Rightarrow> (string \<times> string) option" where
  "sep_match sep wordc at_start s =
     (case (if at_start then sep_group sep wordc s else None) of
        Some m \<Rightarrow> Some m
      | None \<Rightarrow>
          (case s of
             [] \<Rightarrow> None
           | c # cs \<Rightarrow> if c = sep then sep_group sep wordc cs else None))"

datatype CaseStyle = CamelCase | SnakeCase | KebabCase

fun WORD_PATTERN :: "CaseStyle \<Rightarrow> bool \<Rightarrow> string \<Rightarrow> (string \<times> string) option" where
  "WORD_PATTERN CamelCase = camel_match"
| "WORD_PATTERN SnakeCase = sep_match (CHR ''_'') snake_char"
| "WORD_PATTERN KebabCase = sep_match (CHR ''-'') kebab_char"

text \<open>
  \<open>pattern.findall(string)\<close>: scan from the left; at a match report it and go on after
  it, otherwise move one character on. A match that consumed nothing would move one
  character on as well (no pattern here has one).
\<close>

function findall ::
  "(bool \<Rightarrow> string \<Rightarrow> (string \<times> string) option) \<Rightarrow> bool \<Rightarrow> string \<Rightarrow> string list" where
  "findall p at_start [] = []"
| "findall p at_start (c # cs) =
     (case p at_start (c # cs) of
        None \<Rightarrow> findall p False cs
      | Some (m, rest) \<Rightarrow>
          m # findall p False (if length rest \<le> length cs then rest else cs))"
  by pat_completeness auto
termination
  by (relation "measure (\<lambda>(p, b, s). length s)") auto

definition words :: "CaseStyle \<Rightarrow> string \<Rightarrow> string list" where
  "words cls string = findall (WORD_PATTERN cls) True string"

section \<open>Formatters\<close>

text \<open>
  \<open>CamelCase.fmt\<close> reads \<open>words[0]\<close>, which raises \<open>IndexError\<close> on the empty list; the
  other two formatters only join.
\<close>

fun fmt :: "CaseStyle \<Rightarrow> string list \<Rightarrow> py_error + string" where
  "fmt CamelCase [] = Inl IndexError"
| "fmt CamelCase (w # ws) = Inr (lower w @ concat (map title ws))"
| "fmt SnakeCase ws = Inr (join ''_'' (map lower ws))"
| "fmt KebabCase ws = Inr (join ''-'' (map lower ws))"

definition convert :: "string \<Rightarrow> CaseStyle \<Rightarrow> CaseStyle \<Rightarrow> py_error + string" where
  "convert string src dest = fmt dest (words src string)"

section \<open>Values and classes (utils/setdefault.py)\<close>

text \<open>
  The values \<open>setdefault\<close> is modelled on: \<open>None\<close>, integers, strings, lists,
  dictionaries and sets. A dictionary is the list of its items in insertion order, a set
  the list of its elements in iteration order; keys and elements are hashable values.
\<close>

datatype pykey = KNone | KInt int | KStr string

datatype pyval =
    VNone
  | VInt int
  | VStr string
  | VList "pyval list"
  | VDict "(pykey \<times> pyval) list"
  | VSet "pykey list"

datatype pycls = CNoneType | CInt | CStr | CList | CDict | CSet

text \<open>\<open>type(value)\<close>.\<close>

fun type_of :: "pyval \<Rightarrow> pycls" where
  "type_of VNone = CNoneType"
| "type_of (VInt n) = CInt"
| "type_of (VStr s) = CStr"
| "type_of (VList xs) = CList"
| "type_of (VDict kvs) = CDict"
| "type_of (VSet ks) = CSet"

text \<open>
  The abstract base classes \<open>Mapping\<close>, \<open>Set\<close> and \<open>MutableSequence\<close> of
  \<open>collections.abc\<close>, and \<open>issubclass(cls, k)\<close> for such a class \<open>k\<close>: among the classes
  above, \<open>dict\<close> is the mapping, \<open>list\<close> the mutable sequence and \<open>set\<close> the set;
  \<open>str\<close> is a sequence, but not a mutable one.
\<close>

datatype abc = Mapping | Set | MutableSequence

fun issubclass :: "pycls \<Rightarrow> abc \<Rightarrow> bool" where
  "issubclass cls Mapping = (cls = CDict)"
| "issubclass cls Set = (cls = CSet)"
| "issubclass cls MutableSequence = (cls = CList)"

fun val_of_key :: "pykey \<Rightarrow> pyval" where
  "val_of_key KNone = VNone"
| "val_of_key (KInt n) = VInt n"
| "val_of_key (KStr s) = VStr s"

text \<open>Hashing a value, as storing it as a key or element does; containers are unhashable.\<close>

fun key_of_val :: "pyval \<Rightarrow> py_error + pykey" where
  "key_of_val VNone = Inr KNone"
| "key_of_val (VInt n) = Inr (KInt n)"
| "key_of_val (VStr s) = Inr (KStr s)"
| "key_of_val (VList xs) = Inl TypeError"
| "key_of_val (VDict kvs) = Inl TypeError"
| "key_of_val (VSet ks) = Inl TypeError"

text \<open>
  Iterating a value, as \<open>*value\<close> in a call and the container constructors do: a string
  yields its characters, a dictionary its keys; \<open>None\<close> and integers are not iterable.
\<close>

fun iter :: "pyval \<Rightarrow> py_error + pyval list" where
  "iter VNone = Inl TypeError"
| "iter (VInt n) = Inl TypeError"
| "iter (VStr s) = Inr (map (\<lambda>c. VStr [c]) s)"
| "iter (VList xs) = Inr xs"
| "iter (VDict kvs) = Inr (map (\<lambda>kv. val_of_key (fst kv)) kvs)"
| "iter (VSet ks) = Inr (map val_of_key ks)"

text \<open>\<open>d[k] = v\<close> on the item list: an existing key keeps its place.\<close>

fun dict_set :: "pykey \<Rightarrow> pyval \<Rightarrow> (pykey \<times> pyval) list \<Rightarrow> (pykey \<times> pyval) list" where
  "dict_set k v [] = [(k, v)]"
| "dict_set k v ((k', v') # kvs) =
     (if k' = k then (k, v) # kvs else (k', v') # dict_set k v kvs)"

text \<open>\<open>s.add(k)\<close> on the element list.\<close>

definition set_add :: "pykey \<Rightarrow> pykey list \<Rightarrow> pykey list" where
  "set_add k ks = (if k \<in> set ks then ks else ks @ [k])"

text \<open>\<open>set(xs)\<close> for the elements \<open>xs\<close> an iteration yielded, added from the left.\<close>

fun set_of_elems :: "pykey list \<Rightarrow> pyval list \<Rightarrow> py_error + pyval" where
  "set_of_elems acc [] = Inr (VSet acc)"
| "set_of_elems acc (x # xs) =
     (case key_of_val x of
        Inl e \<Rightarrow> Inl e
      | Inr k \<Rightarrow> set_of_elems (set_add k acc) xs)"

text \<open>
  \<open>dict(xs)\<close> for the elements \<open>xs\<close> an iteration yielded: every element is itself
  iterated and has to yield exactly two values, a hashable key and its value
  (\<open>TypeError\<close> for an element that is not iterable or a key that is not hashable,
  \<open>ValueError\<close> for a wrong length).
\<close>

fun dict_of_elems :: "(pykey \<times> pyval) list \<Rightarrow> pyval list \<Rightarrow> py_error + pyval" where
  "dict_of_elems acc [] = Inr (VDict acc)"
| "dict_of_elems acc (x # xs) =
     (case iter x of
        Inl e \<Rightarrow> Inl e
      | Inr [a, b] \<Rightarrow>
          (case key_of_val a of
             Inl e \<Rightarrow> Inl e
           | Inr k \<Rightarrow> dict_of_elems (dict_set k b acc) xs)
      | Inr _ \<Rightarrow> Inl ValueError)"

text \<open>
  Objects live in a store and are named by their addresses; an object holds its elements
  by value. The result of an operation on the store is an object of the store (one that
  was passed in, or a new one), or an immutable value the operation computed: which
  object holds such a value is the interpreter's choice (\<open>(5 | 5) is 5\<close>).
\<close>

type_synonym addr = nat

type_synonym store = "pyval list"

datatype result = Object addr | Immutable pyval

text \<open>
  The names the module uses and the file does not define. The file imports only
  \<open>partial\<close> and \<open>merge\<close>: it binds none of \<open>Mapping\<close>, \<open>Set\<close>, \<open>MutableSequence\<close> and
  \<open>merge_mappings\<close>, and reading an unbound name raises \<open>NameError\<close>. The environment
  says which of these names are bound when a helper runs; a bound class name is the
  class of \<open>collections.abc\<close>, a bound \<open>merge_mappings\<close> is called as
  \<open>merge_mappings(None, default, value, _type=cls)\<close> and is given by what it returns and
  by what it does on the store. The conversions \<open>int(...)\<close> and \<open>str(...)\<close> of the
  language are given by the environment as well, called with the list of their arguments.
\<close>

record env =
  abc_bound :: "abc \<Rightarrow> bool"
  merge_mappings_bound :: bool
  merge_mappings :: "pyval \<Rightarrow> pyval \<Rightarrow> pyval \<Rightarrow> pycls \<Rightarrow> py_error + pyval"
  merge_mappings_st :: "store \<Rightarrow> addr \<Rightarrow> addr \<Rightarrow> pycls \<Rightarrow> (py_error + result) \<times> store"
  py_int :: "pyval list \<Rightarrow> py_error + pyval"
  py_str :: "pyval list \<Rightarrow> py_error + pyval"

text \<open>The module as the file has it: none of the four names is bound.\<close>

definition shipped :: "env \<Rightarrow> env" where
  "shipped E = E\<lparr>abc_bound := (\<lambda>k. False), merge_mappings_bound := False\<rparr>"

text \<open>The module with the four names bound.\<close>

definition with_names :: "env \<Rightarrow> env" where
  "with_names E = E\<lparr>abc_bound := (\<lambda>k. True), merge_mappings_bound := True\<rparr>"

text \<open>Reading the global name of a class.\<close>

definition global_abc :: "env \<Rightarrow> abc \<Rightarrow> py_error + abc" where
  "global_abc E k = (if abc_bound E k then Inr k else Inl NameError)"

text \<open>
  The call \<open>cls(*args)\<close>. The container classes take at most one argument, an iterable
  (\<open>dict\<close> also a dictionary, which it copies); \<open>NoneType\<close> takes none.
\<close>

fun construct :: "env \<Rightarrow> pycls \<Rightarrow> pyval list \<Rightarrow> py_error + pyval" where
  "construct E CNoneType args = (if args = [] then Inr VNone else Inl TypeError)"
| "construct E CInt args = py_int E args"
| "construct E CStr args = py_str E args"
| "construct E CList [] = Inr (VList [])"
| "construct E CList [x] = (case iter x of Inl e \<Rightarrow> Inl e | Inr xs \<Rightarrow> Inr (VList xs))"
| "construct E CList (x # y # args) = Inl TypeError"
| "construct E CDict [] = Inr (VDict [])"
| "construct E CDict [VDict kvs] = Inr (VDict kvs)"
| "construct E CDict [x] = (case iter x of Inl e \<Rightarrow> Inl e | Inr xs \<Rightarrow> dict_of_elems [] xs)"
| "construct E CDict (x # y # args) = Inl TypeError"
| "construct E CSet [] = Inr (VSet [])"
| "construct E CSet [x] = (case iter x of Inl e \<Rightarrow> Inl e | Inr xs \<Rightarrow> set_of_elems [] xs)"
| "construct E CSet (x # y # args) = Inl TypeError"

text \<open>
  \<open>value | default\<close>: the union of two sets (a new set), the bitwise or of two integers,
  the union of two dictionaries with the right one's values winning (a new dictionary);
  \<open>TypeError\<close> for any other pair of operands.
\<close>

fun py_or :: "pyval \<Rightarrow> pyval \<Rightarrow> py_error + pyval" where
  "py_or (VSet a) (VSet b) = Inr (VSet (fold set_add b a))"
| "py_or (VInt a) (VInt b) = Inr (VInt (a OR b))"
| "py_or (VDict a) (VDict b) = Inr (VDict (fold (\<lambda>kv. dict_set (fst kv) (snd kv)) b a))"
| "py_or a b = Inl TypeError"

section \<open>setdefault\<close>

text \<open>
  The three helpers \<open>_setdefault_dict\<close>, \<open>_setdefault_set\<close> and \<open>_setdefault_list\<close>, named
  here without the leading underscore. Each reads the global name of its class before
  it calls \<open>issubclass\<close>; \<open>_setdefault_dict\<close> reads the name \<open>merge_mappings\<close> when
  the test succeeds. In \<open>cls(*default, *value)\<close> the two arguments are unpacked from the
  left.
\<close>

definition setdefault_dict :: "env \<Rightarrow> pyval \<Rightarrow> pyval \<Rightarrow> pycls \<Rightarrow> py_error + pyval" where
  "setdefault_dict E value default' cls =
     (case global_abc E Mapping of
        Inl e \<Rightarrow> Inl e
      | Inr k \<Rightarrow>
          if issubclass cls k
          then (if merge_mappings_bound E then merge_mappings E VNone default' value cls
                else Inl NameError)
          else Inr value)"

definition setdefault_set :: "env \<Rightarrow> pyval \<Rightarrow> pyval \<Rightarrow> pycls \<Rightarrow> py_error + pyval" where
  "setdefault_set E value default' cls =
     (case global_abc E Set of
        Inl e \<Rightarrow> Inl e
      | Inr k \<Rightarrow> if issubclass cls k then py_or value default' else Inr value)"

definition setdefault_list :: "env \<Rightarrow> pyval \<Rightarrow> pyval \<Rightarrow> pycls \<Rightarrow> py_error + pyval" where
  "setdefault_list E value default' cls =
     (case global_abc E MutableSequence of
        Inl e \<Rightarrow> Inl e
      | Inr k \<Rightarrow>
          if issubclass cls k
          then (case iter default' of
                  Inl e \<Rightarrow> Inl e
                | Inr ds \<Rightarrow>
                    (case iter value of
                       Inl e \<Rightarrow> Inl e
                     | Inr vs \<Rightarrow> construct E cls (ds @ vs)))
          else Inr value)"

text \<open>
  \<open>setdefault(value, default, cls=None, merge_lists=False, merge_sets=False,
  merge_dicts=False, depth=1)\<close>. An omitted \<open>cls\<close> is \<open>None\<close>; a class is true in
  \<open>if cls\<close>. The body never reads \<open>depth\<close>.
\<close>

definition setdefault ::
  "env \<Rightarrow> pyval \<Rightarrow> pyval \<Rightarrow> pycls option \<Rightarrow> bool \<Rightarrow> bool \<Rightarrow> bool \<Rightarrow> int \<Rightarrow> py_error + pyval" where
  "setdefault E value default' cls merge_lists merge_sets merge_dicts depth =
     (if value = VNone then
        (case cls of Some k \<Rightarrow> construct E k [default'] | None \<Rightarrow> Inr default')
      else if default' = VNone then
        (case cls of Some k \<Rightarrow> construct E k [value] | None \<Rightarrow> Inr value)
      else
        (let cls = (case cls of Some k \<Rightarrow> k | None \<Rightarrow> type_of value) in
           if merge_dicts then setdefault_dict E value default' cls
           else if merge_lists then setdefault_list E value default' cls
           else if merge_sets then setdefault_set E value default' cls
           else Inr value))"

section \<open>setdefault on a store\<close>

text \<open>
  To state what a call does to its arguments, the same code on the store: a call
  receives the addresses of \<open>value\<close> and \<open>default\<close> and returns its outcome (the result or
  the exception) with the store it leaves.

  An operation that creates its result: a list, dictionary or set becomes a new object
  at the next free address; an immutable value is the result as it is; a failure leaves
  the store as it was.
\<close>

fun mutable :: "pyval \<Rightarrow> bool" where
  "mutable (VList xs) = True"
| "mutable (VDict kvs) = True"
| "mutable (VSet ks) = True"
| "mutable v = False"

definition new_object :: "store \<Rightarrow> py_error + pyval \<Rightarrow> (py_error + result) \<times> store" where
  "new_object s r =
     (case r of
        Inl e \<Rightarrow> (Inl e, s)
      | Inr v \<Rightarrow> if mutable v then (Inr (Object (length s)), s @ [v]) else (Inr (Immutable v), s))"

text \<open>\<open>cls(*args)\<close> and \<open>value | default\<close> read their operands and create their result.\<close>

definition construct_st :: "env \<Rightarrow> pycls \<Rightarrow> store \<Rightarrow> pyval list \<Rightarrow> (py_error + result) \<times> store" where
  "construct_st E cls s args = new_object s (construct E cls args)"

definition py_or_st :: "store \<Rightarrow> addr \<Rightarrow> addr \<Rightarrow> (py_error + result) \<times> store" where
  "py_or_st s a b = new_object s (py_or (s ! a) (s ! b))"

definition setdefault_dict_st ::
  "env \<Rightarrow> store \<Rightarrow> addr \<Rightarrow> addr \<Rightarrow> pycls \<Rightarrow> (py_error + result) \<times> store" where
  "setdefault_dict_st E s value default' cls =
     (case global_abc E Mapping of
        Inl e \<Rightarrow> (Inl e, s)
      | Inr k \<Rightarrow>
          if issubclass cls k
          then (if merge_mappings_bound E then merge_mappings_st E s default' value cls
                else (Inl NameError, s))
          else (Inr (Object value), s))"

definition setdefault_set_st ::
  "env \<Rightarrow> store \<Rightarrow> addr \<Rightarrow> addr \<Rightarrow> pycls \<Rightarrow> (py_error + result) \<times> store" where
  "setdefault_set_st E s value default' cls =
     (case global_abc E Set of
        Inl e \<Rightarrow> (Inl e, s)
      | Inr k \<Rightarrow>
          if issubclass cls k then py_or_st s value default'
          else (Inr (Object value), s))"

definition setdefault_list_st ::
  "env \<Rightarrow> store \<Rightarrow> addr \<Rightarrow> addr \<Rightarrow> pycls \<Rightarrow> (py_error + result) \<times> store" where
  "setdefault_list_st E s value default' cls =
     (case global_abc E MutableSequence of
        Inl e \<Rightarrow> (Inl e, s)
      | Inr k \<Rightarrow>
          if issubclass cls k
          then (case iter (s ! default') of
                  Inl e \<Rightarrow> (Inl e, s)
                | Inr ds \<Rightarrow>
                    (case iter (s ! value) of
                       Inl e \<Rightarrow> (Inl e, s)
                     | Inr vs \<Rightarrow> construct_st E cls s (ds @ vs)))
          else (Inr (Object value), s))"

definition setdefault_st ::
  "env \<Rightarrow> store \<Rightarrow> addr \<Rightarrow> addr \<Rightarrow> pycls option \<Rightarrow> bool \<Rightarrow> bool \<Rightarrow> bool \<Rightarrow> int
     \<Rightarrow> (py_error + result) \<times> store" where
  "setdefault_st E s value default' cls merge_lists merge_sets merge_dicts depth =
     (if s ! value = VNone then
        (case cls of
           Some k \<Rightarrow> construct_st E k s [s ! default']
         | None \<Rightarrow> (Inr (Object default'), s))
      else if s ! default' = VNone then
        (case cls of
           Some k \<Rightarrow> construct_st E k s [s ! value]
         | None \<Rightarrow> (Inr (Object value), s))
      else
        (let cls = (case cls of Some k \<Rightarrow> k | None \<Rightarrow> type_of (s ! value)) in
           if merge_dicts then setdefault_dict_st E s value default' cls
           else if merge_lists then setdefault_list_st E s value default' cls
           else if merge_sets then setdefault_set_st E s value default' cls
           else (Inr (Object value), s)))"

text \<open>A helper that leaves every object of the store it is given as it was.\<close>

definition keeps_store ::
  "(store \<Rightarrow> addr \<Rightarrow> addr \<Rightarrow> pycls \<Rightarrow> (py_error + result) \<times> store) \<Rightarrow> bool" where
  "keeps_store f \<longleftrightarrow> (\<forall>s d v c. take (length s) (snd (f s d v c)) = s)"

text \<open>\<open>d[k]\<close> on a value, \<open>None\<close> where \<open>d\<close> is no dictionary or has no such key.\<close>

fun item :: "pyval \<Rightarrow> pykey \<Rightarrow> pyval option" where
  "item (VDict kvs) k = map_of kvs k"
| "item v k = None"

section \<open>The specification's reading of titlecase\<close>

text \<open>
  The specification describes titlecasing a word as "first character uppercased,
  remainder lowercased". This is that description, to be compared with \<open>title\<close>.
\<close>

fun spec_titlecase :: "string \<Rightarrow> string" where
  "spec_titlecase [] = []"
| "spec_titlecase (c # cs) = to_upper c # map to_lower cs"

text \<open>No cased character of the word directly follows an uncased one.\<close>

fun cased_follows_cased :: "string \<Rightarrow> bool" where
  "cased_follows_cased [] = True"
| "cased_follows_cased [c] = True"
| "cased_follows_cased (c # d # cs) =
     ((is_cased d \<longrightarrow> is_cased c) \<and> cased_follows_cased (d # cs))"

section \<open>Shapes of words\<close>




section \<open>Properties of the case conversion\<close>

text \<open>
  C1. The three example identifiers of the specification are converted exactly:
  camel to snake, snake to kebab, and kebab to camel.
\<close>

theorem convert_examples:
  "convert ''myVariableName'' CamelCase SnakeCase = Inr ''my_variable_name''
   \<and> convert ''my_variable_name'' SnakeCase KebabCase = Inr ''my-variable-name''
   \<and> convert ''my-variable-name'' KebabCase CamelCase = Inr ''myVariableName''"
  by code_simp

text \<open>
  C9. On the empty word sequence the camel formatter fails with an index error, and the
  snake and kebab formatters return the empty string.
\<close>

theorem fmt_empty:
  "fmt CamelCase [] = Inl IndexError \<and> fmt SnakeCase [] = Inr '''' \<and> fmt KebabCase [] = Inr ''''"
  by simp

subsection \<open>Titlecase\<close>

lemma upper_eq_lower_iff: "to_upper c = to_lower c \<longleftrightarrow> \<not> is_cased c"
proof -
  let ?n = "of_char c :: nat"
  have up: "char_of (?n + 32) \<noteq> c" if "?n \<le> 90"
  proof
    assume "char_of (?n + 32) = c"
    then have "(of_char (char_of (?n + 32)) :: nat) = ?n" by simp
    with that show False by (simp add: of_char_of)
  qed
  have low: "char_of (?n - 32) \<noteq> c" if "97 \<le> ?n"
  proof
    assume "char_of (?n - 32) = c"
    then have "(of_char (char_of (?n - 32)) :: nat) = ?n" by simp
    with that show False by (simp add: of_char_of)
  qed
  show ?thesis using up low
    by (auto simp add: to_upper_def to_lower_def is_cased_def is_upper_def is_lower_def)
qed

lemma length_title_from: "length (title_from p v) = length v"
  by (induction v arbitrary: p) auto

lemma title_from_nth:
  "i < length v \<Longrightarrow> title_from p v ! i =
     (if (if i = 0 then p else is_cased (v ! (i - 1))) then to_lower (v ! i) else to_upper (v ! i))"
proof (induction v arbitrary: p i)
  case Nil
  then show ?case by simp
next
  case (Cons c cs)
  show ?case
  proof (cases i)
    case 0
    then show ?thesis by simp
  next
    case (Suc j)
    with Cons.prems have "j < length cs" by simp
    from Cons.IH[OF this, of "is_cased c"] Suc show ?thesis
      by (cases j) auto
  qed
qed

lemma title_from_eq_lower:
  "title_from p cs = map to_lower cs \<longleftrightarrow>
     (case cs of [] \<Rightarrow> True | d # _ \<Rightarrow> (is_cased d \<longrightarrow> p) \<and> cased_follows_cased cs)"
proof (induction cs arbitrary: p)
  case Nil
  then show ?case by simp
next
  case (Cons d ds)
  show ?case using Cons.IH[of "is_cased d"] upper_eq_lower_iff[of d]
    by (cases ds) auto
qed

lemma title_eq_spec: "title v = spec_titlecase v \<longleftrightarrow> cased_follows_cased v"
  by (cases v) (auto simp: title_def title_from_eq_lower split: list.splits)

text \<open>
  C2, as stated: the camel formatter returns the first word lowercased followed by every
  later word with its first character uppercased and all its other characters
  lowercased, for all words. It fails for the ASCII word \<open>var1x\<close>, which has a letter
  after a digit: \<open>title\<close> uppercases that letter.
\<close>

theorem camel_fmt_spec_titlecase_counterexample:
  "fmt CamelCase [''my'', ''var1x''] = Inr ''myVar1X''
   \<and> fmt CamelCase [''my'', ''var1x'']
       \<noteq> Inr (lower ''my'' @ concat (map spec_titlecase [''var1x'']))"
  by code_simp

text \<open>
  C2, amended: for every non-empty sequence of ASCII words the camel formatter returns
  the first word lowercased followed by every later word titlecased, where titlecasing
  an ASCII word keeps the length, uppercases a character that is the first of the word
  or follows an uncased character (a digit, an underscore), and lowercases a character
  that follows a cased one. For an ASCII word this is "first character uppercased,
  remainder lowercased" exactly when no letter of the word directly follows a
  non-letter.
\<close>

theorem camel_fmt_titlecase:
  "ws \<noteq> [] \<Longrightarrow> list_all is_ascii ws \<Longrightarrow>
     fmt CamelCase ws = Inr (lower (hd ws) @ concat (map title (tl ws)))
     \<and> (\<forall>v i. is_ascii v \<and> i < length v \<longrightarrow>
           length (title v) = length v
           \<and> title v ! i =
               (if i = 0 \<or> \<not> is_cased (v ! (i - 1)) then to_upper (v ! i) else to_lower (v ! i)))
     \<and> (\<forall>v. is_ascii v \<longrightarrow> (title v = spec_titlecase v \<longleftrightarrow> cased_follows_cased v))
     \<and> ((\<forall>v \<in> set (tl ws). cased_follows_cased v) \<longrightarrow>
          fmt CamelCase ws = Inr (lower (hd ws) @ concat (map spec_titlecase (tl ws))))"
proof -
  assume ne: "ws \<noteq> []"
  then obtain w rest where ws: "ws = w # rest" by (cases ws) auto
  have fmt_eq: "fmt CamelCase ws = Inr (lower (hd ws) @ concat (map title (tl ws)))"
    by (simp add: ws)
  have nth: "\<forall>v i. is_ascii v \<and> i < length v \<longrightarrow>
           length (title v) = length v
           \<and> title v ! i =
               (if i = 0 \<or> \<not> is_cased (v ! (i - 1)) then to_upper (v ! i) else to_lower (v ! i))"
    by (auto simp: title_def length_title_from title_from_nth)
  have iff: "\<forall>v. is_ascii v \<longrightarrow> (title v = spec_titlecase v \<longleftrightarrow> cased_follows_cased v)"
    by (simp add: title_eq_spec)
  have spec: "(\<forall>v \<in> set (tl ws). cased_follows_cased v) \<longrightarrow>
          fmt CamelCase ws = Inr (lower (hd ws) @ concat (map spec_titlecase (tl ws)))"
  proof
    assume "\<forall>v \<in> set (tl ws). cased_follows_cased v"
    then have "map title (tl ws) = map spec_titlecase (tl ws)"
      by (simp add: title_eq_spec)
    with fmt_eq show "fmt CamelCase ws = Inr (lower (hd ws) @ concat (map spec_titlecase (tl ws)))"
      by simp
  qed
  from fmt_eq nth iff spec show ?thesis by blast
qed

theorem camel_fmt_titlecase_witness:
  "[''my'', ''variable'', ''name''] \<noteq> []
   \<and> list_all is_ascii [''my'', ''variable'', ''name'']
   \<and> is_ascii ''var1x''
   \<and> cased_follows_cased ''variable'' \<and> cased_follows_cased ''name''
   \<and> fmt CamelCase [''my'', ''variable'', ''name''] = Inr ''myVariableName''
   \<and> title ''var1x'' ! 4 = CHR ''X''"
proof -
  have ne: "[''my'', ''variable'', ''name''] \<noteq> ([] :: string list)" by simp
  have asc: "list_all is_ascii [''my'', ''variable'', ''name'']" by code_simp
  have asc1: "is_ascii ''var1x''" by code_simp
  have cfc: "\<forall>v \<in> set (tl [''my'', ''variable'', ''name'']). cased_follows_cased v"
    by code_simp
  note inst = camel_fmt_titlecase[OF ne asc]
  from inst cfc have "fmt CamelCase [''my'', ''variable'', ''name'']
      = Inr (lower (hd [''my'', ''variable'', ''name''])
             @ concat (map spec_titlecase (tl [''my'', ''variable'', ''name''])))"
    by blast
  moreover have "lower (hd [''my'', ''variable'', ''name''])
             @ concat (map spec_titlecase (tl [''my'', ''variable'', ''name''])) = ''myVariableName''"
    by code_simp
  moreover have "(4::nat) < length ''var1x''" by simp
  with inst asc1 have "title ''var1x'' ! 4 =
      (if (4::nat) = 0 \<or> \<not> is_cased (''var1x'' ! (4 - 1)) then to_upper (''var1x'' ! 4)
       else to_lower (''var1x'' ! 4))"
    by blast
  moreover have "(if (4::nat) = 0 \<or> \<not> is_cased (''var1x'' ! (4 - 1)) then to_upper (''var1x'' ! 4)
       else to_lower (''var1x'' ! 4)) = CHR ''X''"
    by code_simp
  moreover have "cased_follows_cased ''variable'' \<and> cased_follows_cased ''name''"
    using cfc by simp
  ultimately show ?thesis using ne asc asc1 by simp
qed

subsection \<open>Converting within one style\<close>












































section \<open>Properties of setdefault\<close>

lemma shipped_unbound:
  "abc_bound (shipped E) k = False" "merge_mappings_bound (shipped E) = False"
  "py_int (shipped E) = py_int E" "py_str (shipped E) = py_str E"
  by (simp_all add: shipped_def)

lemma with_names_bound:
  "abc_bound (with_names E) k = True" "merge_mappings_bound (with_names E) = True"
  "merge_mappings (with_names E) = merge_mappings E"
  "merge_mappings_st (with_names E) = merge_mappings_st E"
  "py_int (with_names E) = py_int E" "py_str (with_names E) = py_str E"
  by (simp_all add: with_names_def)

text \<open>
  C5, at the specification's own example, \<open>setdefault([1, 2], [0], merge_lists=True)\<close>.
  With the name \<open>MutableSequence\<close> bound the call reaches \<open>list(0, 1, 2)\<close>, which raises
  \<open>TypeError\<close>; as the file has it, the name is unbound and the call raises \<open>NameError\<close>.
  In no environment is the result the \<open>[0, 1, 2]\<close> of the claim and of the docstring
  ("concatenate and return default + value").
\<close>

theorem setdefault_merge_lists_example:
  "setdefault (with_names E) (VList [VInt 1, VInt 2]) (VList [VInt 0]) None True False False 1
     = Inl TypeError
   \<and> setdefault (shipped E) (VList [VInt 1, VInt 2]) (VList [VInt 0]) None True False False 1
     = Inl NameError
   \<and> setdefault E (VList [VInt 1, VInt 2]) (VList [VInt 0]) None True False False 1
     \<noteq> Inr (VList [VInt 0, VInt 1, VInt 2])"
  by (simp add: setdefault_def setdefault_list_def global_abc_def
      shipped_unbound with_names_bound)

text \<open>
  C10. The result does not depend on the depth argument: for all other arguments, two
  calls that differ only in \<open>depth\<close> return the same.
\<close>

theorem setdefault_depth_irrelevant:
  "setdefault E value default' cls merge_lists merge_sets merge_dicts d1
     = setdefault E value default' cls merge_lists merge_sets merge_dicts d2"
  by (simp add: setdefault_def)

subsection \<open>Absent arguments\<close>

lemma set_of_elems_type: "set_of_elems acc xs = Inr r \<Longrightarrow> type_of r = CSet"
  by (induction xs arbitrary: acc) (auto split: sum.splits)

lemma dict_of_elems_type: "dict_of_elems acc xs = Inr r \<Longrightarrow> type_of r = CDict"
proof (induction xs arbitrary: acc)
  case Nil
  then show ?case by auto
next
  case (Cons x xs)
  then show ?case
    by (auto split: sum.splits list.splits)
qed

lemma construct_container_type:
  "k \<in> {CList, CDict, CSet} \<Longrightarrow> construct E k [x] = Inr r \<Longrightarrow> type_of r = k"
  by (cases x) (auto split: sum.splits dest: set_of_elems_type dict_of_elems_type)

text \<open>
  C6. If \<open>value\<close> is \<open>None\<close> the call returns \<open>default\<close>, or \<open>cls(default)\<close> when a target
  class is given; otherwise, if \<open>default\<close> is \<open>None\<close>, it returns \<open>value\<close>, or \<open>cls(value)\<close>
  when a target class is given; the flags and the depth play no part. What a container
  class constructs is an instance of that class. In particular
  \<open>setdefault(None, {"a": 1})\<close> is \<open>{"a": 1}\<close>.
\<close>

theorem setdefault_absent:
  "setdefault E VNone default' cls merge_lists merge_sets merge_dicts depth
     = (case cls of None \<Rightarrow> Inr default' | Some k \<Rightarrow> construct E k [default'])
   \<and> (value \<noteq> VNone \<longrightarrow>
        setdefault E value VNone cls merge_lists merge_sets merge_dicts depth
          = (case cls of None \<Rightarrow> Inr value | Some k \<Rightarrow> construct E k [value]))
   \<and> (k \<in> {CList, CDict, CSet} \<and> construct E k [x] = Inr r \<longrightarrow> type_of r = k)
   \<and> setdefault E VNone (VDict [(KStr ''a'', VInt 1)]) None False False False 1
       = Inr (VDict [(KStr ''a'', VInt 1)])"
  using construct_container_type[of k E x r]
  by (auto simp add: setdefault_def split: option.splits)

theorem setdefault_absent_witness:
  "\<forall>E. VList [VInt 1, VInt 1] \<noteq> VNone
     \<and> setdefault E (VList [VInt 1, VInt 1]) VNone (Some CSet) False False False 1
         = Inr (VSet [KInt 1])
     \<and> CSet \<in> {CList, CDict, CSet}
     \<and> type_of (VSet [KInt 1]) = CSet
     \<and> setdefault E VNone (VStr ''ab'') (Some CList) True True True 1
         = Inr (VList [VStr ''a'', VStr ''b''])"
proof
  fix E
  have c: "construct E CSet [VList [VInt 1, VInt 1]] = Inr (VSet [KInt 1])"
    by (simp add: set_add_def)
  have d: "construct E CList [VStr ''ab''] = Inr (VList [VStr ''a'', VStr ''b''])"
    by simp
  note inst1 = setdefault_absent[of E "VStr ''ab''" "Some CList" True True True 1
      "VList [VInt 1, VInt 1]" CSet "VList [VInt 1, VInt 1]" "VSet [KInt 1]"]
  note inst2 = setdefault_absent[of E VNone "Some CSet" False False False 1
      "VList [VInt 1, VInt 1]" CSet "VList [VInt 1, VInt 1]" "VSet [KInt 1]"]
  from inst1 d have "setdefault E VNone (VStr ''ab'') (Some CList) True True True 1
         = Inr (VList [VStr ''a'', VStr ''b''])" by simp
  moreover from inst2 c have "setdefault E (VList [VInt 1, VInt 1]) VNone (Some CSet) False False False 1
         = Inr (VSet [KInt 1])" by simp
  moreover from inst2 c have "type_of (VSet [KInt 1]) = CSet" by blast
  ultimately show "VList [VInt 1, VInt 1] \<noteq> VNone
     \<and> setdefault E (VList [VInt 1, VInt 1]) VNone (Some CSet) False False False 1
         = Inr (VSet [KInt 1])
     \<and> CSet \<in> {CList, CDict, CSet}
     \<and> type_of (VSet [KInt 1]) = CSet
     \<and> setdefault E VNone (VStr ''ab'') (Some CList) True True True 1
         = Inr (VList [VStr ''a'', VStr ''b''])" by simp
qed

subsection \<open>A merge of the wrong kind\<close>

text \<open>
  C7, at three calls with both arguments present and one flag set, of a kind the value
  is not: the dictionary merge for a string, the list merge for a dictionary, the set
  merge for a list. The claim says each call returns \<open>value\<close> and raises nothing. As the
  file has it, each helper reads its unbound class name first and the call raises
  \<open>NameError\<close>; only with the names bound does the call return \<open>value\<close>.
\<close>

theorem setdefault_incompatible_type_raises:
  "setdefault (shipped E) (VStr ''abc'') (VDict [(KStr ''a'', VInt 1)])
       None False False True 1 = Inl NameError
   \<and> setdefault (shipped E) (VDict [(KStr ''a'', VInt 1)]) (VList [VInt 0])
       None True False False 1 = Inl NameError
   \<and> setdefault (shipped E) (VList [VInt 1]) (VSet [KInt 2])
       None False True False 1 = Inl NameError
   \<and> setdefault (with_names E) (VStr ''abc'') (VDict [(KStr ''a'', VInt 1)])
       None False False True 1 = Inr (VStr ''abc'')
   \<and> setdefault (with_names E) (VDict [(KStr ''a'', VInt 1)]) (VList [VInt 0])
       None True False False 1 = Inr (VDict [(KStr ''a'', VInt 1)])
   \<and> setdefault (with_names E) (VList [VInt 1]) (VSet [KInt 2])
       None False True False 1 = Inr (VList [VInt 1])"
  by (simp add: setdefault_def setdefault_dict_def setdefault_list_def setdefault_set_def
      global_abc_def shipped_unbound with_names_bound)

subsection \<open>The depth of the dictionary merge\<close>

text \<open>
  C4, at two calls that differ only in \<open>depth\<close>. The claim, like the docstring, lets
  \<open>depth\<close> bound the nesting of the merge: for \<open>value = {"a": {"x": 1}}\<close> and
  \<open>default = {"a": {"y": 2}}\<close> the entry \<open>"a"\<close> of the result has no key \<open>"y"\<close> at
  \<open>depth = 1\<close> and has \<open>"y": 2\<close> at \<open>depth = -1\<close>. With the names bound the code makes
  the same call of \<open>merge_mappings\<close> both times, without the depth; as the file has it,
  both calls raise \<open>NameError\<close>. In no environment are the two results the ones the
  claim describes.
\<close>

theorem setdefault_merge_dicts_depth_ignored:
  "setdefault (with_names E) (VDict [(KStr ''a'', VDict [(KStr ''x'', VInt 1)])])
                (VDict [(KStr ''a'', VDict [(KStr ''y'', VInt 2)])])
                None False False True 1
     = merge_mappings E VNone (VDict [(KStr ''a'', VDict [(KStr ''y'', VInt 2)])])
         (VDict [(KStr ''a'', VDict [(KStr ''x'', VInt 1)])]) CDict
   \<and> setdefault (with_names E) (VDict [(KStr ''a'', VDict [(KStr ''x'', VInt 1)])])
                (VDict [(KStr ''a'', VDict [(KStr ''y'', VInt 2)])])
                None False False True (- 1)
     = merge_mappings E VNone (VDict [(KStr ''a'', VDict [(KStr ''y'', VInt 2)])])
         (VDict [(KStr ''a'', VDict [(KStr ''x'', VInt 1)])]) CDict
   \<and> setdefault (shipped E) (VDict [(KStr ''a'', VDict [(KStr ''x'', VInt 1)])])
                (VDict [(KStr ''a'', VDict [(KStr ''y'', VInt 2)])])
                None False False True 1 = Inl NameError
   \<and> setdefault (shipped E) (VDict [(KStr ''a'', VDict [(KStr ''x'', VInt 1)])])
                (VDict [(KStr ''a'', VDict [(KStr ''y'', VInt 2)])])
                None False False True (- 1) = Inl NameError
   \<and> \<not> (\<exists>r1 r2 n1 n2.
        setdefault E (VDict [(KStr ''a'', VDict [(KStr ''x'', VInt 1)])])
                     (VDict [(KStr ''a'', VDict [(KStr ''y'', VInt 2)])])
                     None False False True 1 = Inr r1
      \<and> item r1 (KStr ''a'') = Some n1 \<and> item n1 (KStr ''y'') = None
      \<and> setdefault E (VDict [(KStr ''a'', VDict [(KStr ''x'', VInt 1)])])
                     (VDict [(KStr ''a'', VDict [(KStr ''y'', VInt 2)])])
                     None False False True (- 1) = Inr r2
      \<and> item r2 (KStr ''a'') = Some n2 \<and> item n2 (KStr ''y'') = Some (VInt 2))"
  by (auto simp add: setdefault_def setdefault_dict_def global_abc_def
      shipped_unbound with_names_bound)

subsection \<open>The arguments after the call\<close>

lemma new_object_keeps: "take (length s) (snd (new_object s x)) = s"
  by (simp add: new_object_def split: sum.splits)

text \<open>
  No call changes an object of the store, whether it returns or raises: as the file has
  it, and with the names bound when the helper bound to \<open>merge_mappings\<close> changes none.
\<close>

lemma setdefault_st_keeps:
  assumes "merge_mappings_bound E \<longrightarrow> keeps_store (merge_mappings_st E)"
    and "setdefault_st E s value default' cls merge_lists merge_sets merge_dicts depth = (res, s')"
  shows "take (length s) s' = s"
proof -
  have mm: "take (length s) (snd (merge_mappings_st E s d v c)) = s"
    if "merge_mappings_bound E" for d v c
    using assms(1) that by (simp add: keeps_store_def)
  have d: "take (length s) (snd (setdefault_dict_st E s value default' k)) = s" for k
    using mm by (auto simp add: setdefault_dict_st_def split: sum.splits)
  have l: "take (length s) (snd (setdefault_list_st E s value default' k)) = s" for k
    by (simp add: setdefault_list_st_def construct_st_def new_object_keeps split: sum.splits)
  have st: "take (length s) (snd (setdefault_set_st E s value default' k)) = s" for k
    by (simp add: setdefault_set_st_def py_or_st_def new_object_keeps split: sum.splits)
  have c: "take (length s) (snd (construct_st E k s args)) = s" for k args
    by (simp add: construct_st_def new_object_keeps)
  have "take (length s)
          (snd (setdefault_st E s value default' cls merge_lists merge_sets merge_dicts depth)) = s"
    using d l st c by (simp add: setdefault_st_def Let_def split: option.splits)
  with assms(2) show ?thesis by simp
qed

lemma setdefault_st_shipped_keeps:
  "setdefault_st (shipped E) s value default' cls merge_lists merge_sets merge_dicts depth
     = (res, s') \<Longrightarrow> take (length s) s' = s"
  by (rule setdefault_st_keeps) (simp_all add: shipped_unbound)


end
